theory Spec2Isabelle
  imports Complex_Main
begin

section \<open>Numbers of the host language\<close>

text \<open>
  The cells that \<open>getMetricRange\<close> scans are JavaScript numbers or \<open>null\<close>. The function
  only compares them, so a number is modelled by what \<open>Math.min\<close> and \<open>Math.max\<close>
  distinguish: not-a-number, the two infinities, negative zero, and the finite values
  (\<open>Fin 0\<close> is positive zero). No arithmetic is done on them, hence no rounding.
\<close>

datatype number = NaN | NegInf | NegZero | Fin rat | PosInf

type_synonym cell = "number option"

text \<open>
  \<open>below x y\<close>: \<open>x\<close> is strictly lower than \<open>y\<close> in the order \<open>Math.min\<close> and
  \<open>Math.max\<close> use on numbers other than \<open>NaN\<close>; negative zero is lower than positive zero.
\<close>

fun below :: "number \<Rightarrow> number \<Rightarrow> bool" where
  "below NaN y = False"
| "below x NaN = False"
| "below NegInf y = (y \<noteq> NegInf)"
| "below x NegInf = False"
| "below PosInf y = False"
| "below x PosInf = True"
| "below NegZero NegZero = False"
| "below NegZero (Fin y) = (0 \<le> y)"
| "below (Fin x) NegZero = (x < 0)"
| "below (Fin x) (Fin y) = (x < y)"

text \<open>\<open>Math.min(a, b)\<close> and \<open>Math.max(a, b)\<close> on numbers: \<open>NaN\<close> if either is \<open>NaN\<close>.\<close>

definition Math_min :: "number \<Rightarrow> number \<Rightarrow> number" where
  "Math_min a b = (if a = NaN \<or> b = NaN then NaN else if below b a then b else a)"

definition Math_max :: "number \<Rightarrow> number \<Rightarrow> number" where
  "Math_max a b = (if a = NaN \<or> b = NaN then NaN else if below a b then b else a)"

text \<open>
  \<open>Math.min\<close> and \<open>Math.max\<close> convert their arguments with \<open>ToNumber\<close>, which takes
  \<open>null\<close> to positive zero.
\<close>

fun ToNumber :: "cell \<Rightarrow> number" where
  "ToNumber None = Fin 0"
| "ToNumber (Some x) = x"

section \<open>The metric range (util.ts)\<close>

text \<open>
  The two variables the callbacks of \<open>getMetricRange\<close> assign to: the array \<open>range\<close>
  (its two slots) and the flag \<open>allNull\<close>.
\<close>

record locals =
  range0 :: number
  range1 :: number
  allNull :: bool

text \<open>The body of the inner callback, run once for cell \<open>n\<close>.\<close>

definition cellStep :: "cell \<Rightarrow> locals \<Rightarrow> locals" where
  "cellStep n s =
     (let s1 = (if n \<noteq> None then s\<lparr>allNull := False\<rparr> else s);
          s2 = s1\<lparr>range0 := Math_min (range0 s1) (ToNumber n)\<rparr>;
          s3 = s2\<lparr>range1 := Math_max (range1 s2) (ToNumber n)\<rparr>
      in s3)"

text \<open>\<open>arr.forEach\<close> over one row, and \<open>res.forEach\<close> over the rows.\<close>

definition rowLoop :: "cell list \<Rightarrow> locals \<Rightarrow> locals" where
  "rowLoop arr s = fold cellStep arr s"

definition matrixLoop :: "cell list list \<Rightarrow> locals \<Rightarrow> locals" where
  "matrixLoop res s = fold rowLoop res s"

definition getMetricRange :: "cell list list \<Rightarrow> number \<times> number" where
  "getMetricRange res =
     (let s = matrixLoop res \<lparr>range0 = PosInf, range1 = NegInf, allNull = True\<rparr>
      in if allNull s then (PosInf, NegInf) else (range0 s, range1 s))"

section \<open>Column identity (util.ts)\<close>

text \<open>
  Modelled from the spec: the enumeration \<open>ZenoColumnType\<close> is declared in the module
  \<open>zenoservice\<close>, which is not among the sources. The spec lists its members as
  METADATA, OUTPUT, EMBEDDING and leaves the others open; no claim mentions another member.
\<close>

datatype ZenoColumnType = METADATA | OUTPUT | EMBEDDING

record ZenoColumn =
  columnType :: ZenoColumnType
  name :: string
  model :: string
  transform :: string

text \<open>
  \<open>columnHash\<close> concatenates with \<open>+\<close>, which turns the runtime value of an enumeration
  member into a string. That value belongs to the missing declaration, so it is the
  parameter \<open>str\<close> of the model.
\<close>

definition columnHash :: "(ZenoColumnType \<Rightarrow> string) \<Rightarrow> ZenoColumn \<Rightarrow> string" where
  "columnHash str col =
     (if columnType col = METADATA then [] else str (columnType col))
     @ name col
     @ (if model col \<noteq> [] then model col else [])"

text \<open>
  Modelled from the spec: the runtime value of each member, taken to be the member's
  name, as the spec writes columns (\<open>{OUTPUT,"x","modelA",""}\<close>). Used for concrete
  columns only.
\<close>

fun memberName :: "ZenoColumnType \<Rightarrow> string" where
  "memberName METADATA = ''METADATA''"
| "memberName OUTPUT = ''OUTPUT''"
| "memberName EMBEDDING = ''EMBEDDING''"

text \<open>
  The spec writes the last operand as \<open>model || ""\<close>: the left operand when it is a
  non-empty string, else the right one. The source writes the conditional instead.
\<close>

definition js_or :: "string \<Rightarrow> string \<Rightarrow> string" where
  "js_or a b = (if a \<noteq> [] then a else b)"

text \<open>
  The identity rule in the spec's words: two columns are identical when their
  (columnType-normalized, name, model) triples match, where the column type is left out of
  the triple when it is METADATA.
\<close>

definition normalizedType :: "ZenoColumn \<Rightarrow> ZenoColumnType option" where
  "normalizedType col = (if columnType col = METADATA then None else Some (columnType col))"

definition sameIdentity :: "ZenoColumn \<Rightarrow> ZenoColumn \<Rightarrow> bool" where
  "sameIdentity c1 c2 =
     (normalizedType c1 = normalizedType c2 \<and> name c1 = name c2 \<and> model c1 = model c2)"

section \<open>The two functions of util.ts on a store\<close>

text \<open>
  To say what a call leaves untouched, the arguments live in a store: a list of objects,
  addressed by position. \<open>getMetricRange\<close> receives the address of a matrix, allocates
  the array \<open>range\<close> behind the objects that exist, writes its two slots from the
  callbacks, and returns the address of the array it hands back. \<open>columnHash\<close> receives
  the address of a column.
\<close>

datatype obj = Matrix "cell list list" | Range number number | Column ZenoColumn

type_synonym heap = "obj list"

definition lookup :: "heap \<Rightarrow> nat \<Rightarrow> obj option" where
  "lookup h a = (if a < length h then Some (h ! a) else None)"

text \<open>
  \<open>range[i]\<close> read and written. A read that finds no number gives \<open>undefined\<close>, which
  \<open>Math.min\<close> and \<open>Math.max\<close> convert to \<open>NaN\<close>.
\<close>

definition load :: "heap \<Rightarrow> nat \<Rightarrow> nat \<Rightarrow> number" where
  "load h a i =
     (case lookup h a of
        Some (Range x y) \<Rightarrow> (if i = 0 then x else if i = 1 then y else NaN)
      | _ \<Rightarrow> NaN)"

definition store :: "heap \<Rightarrow> nat \<Rightarrow> nat \<Rightarrow> number \<Rightarrow> heap" where
  "store h a i v =
     (case lookup h a of
        Some (Range x y) \<Rightarrow>
          (if i = 0 then h[a := Range v y] else if i = 1 then h[a := Range x v] else h)
      | _ \<Rightarrow> h)"

definition cellStep_heap :: "nat \<Rightarrow> cell \<Rightarrow> heap \<times> bool \<Rightarrow> heap \<times> bool" where
  "cellStep_heap rangeRef n st =
     (let (h, allNull) = st;
          allNull1 = (if n \<noteq> None then False else allNull);
          h1 = store h rangeRef 0 (Math_min (load h rangeRef 0) (ToNumber n));
          h2 = store h1 rangeRef 1 (Math_max (load h1 rangeRef 1) (ToNumber n))
      in (h2, allNull1))"

text \<open>
  The result is the store after the call and the address of the returned array;
  \<open>None\<close> when \<open>res\<close> is not the address of a matrix.
\<close>

definition getMetricRange_heap :: "heap \<Rightarrow> nat \<Rightarrow> (heap \<times> nat) option" where
  "getMetricRange_heap h res =
     (case lookup h res of
        Some (Matrix m) \<Rightarrow>
          (let rangeRef = length h;
               h0 = h @ [Range PosInf NegInf];
               (h1, allNull) = fold (\<lambda>arr. fold (cellStep_heap rangeRef) arr) m (h0, True)
           in if allNull then Some (h1 @ [Range PosInf NegInf], length h1)
              else Some (h1, rangeRef))
      | _ \<Rightarrow> None)"

definition columnHash_heap ::
  "(ZenoColumnType \<Rightarrow> string) \<Rightarrow> heap \<Rightarrow> nat \<Rightarrow> (heap \<times> string) option" where
  "columnHash_heap str h col =
     (case lookup h col of
        Some (Column c) \<Rightarrow> Some (h, columnHash str c)
      | _ \<Rightarrow> None)"

text \<open>The store \<open>h\<close> followed by the array \<open>range\<close>, and the flag: the locals, laid out.\<close>

definition withRange :: "heap \<Rightarrow> locals \<Rightarrow> heap \<times> bool" where
  "withRange h s = (h @ [Range (range0 s) (range1 s)], allNull s)"

section \<open>Filter predicates and result keys (type declarations)\<close>

record FilterPredicate =
  column :: ZenoColumn
  operation :: string
  "value" :: string
  join :: string
  groupIndicator :: "string option"

text \<open>
  The fields of \<open>ResultKey\<close> are \<open>slice\<close>, \<open>metric\<close>, \<open>transform\<close> and
  \<open>model\<close>; the last two are already fields of \<open>ZenoColumn\<close>, so all four carry
  the prefix \<open>key_\<close> here.
\<close>

record ResultKey =
  key_slice :: string
  key_metric :: string
  key_transform :: string
  key_model :: string

section \<open>The filter predicate engine\<close>

datatype error = InvalidOperation | UnbalancedGroup

text \<open>
  Modelled from the spec: \<open>evaluateExpression\<close> is not among the sources (only the
  declaration of \<open>FilterPredicate\<close> is). The spec describes a left-to-right fold over
  the predicates with a stack of open groups: a predicate marked \<open>start\<close> pushes a new
  sub-accumulator; a predicate marked \<open>end\<close> pops it and combines it with its parent,
  using the join that was pending when the group was opened; without groups the joins apply
  strictly left to right; the join of a predicate with no left operand is ignored; the
  empty list matches every row; inconsistent \<open>start\<close>/\<open>end\<close> markers fail with
  \<open>UnbalancedGroup\<close>.

  The outcome of \<open>evaluatePredicate\<close> on one predicate and one row is the parameter
  \<open>holds\<close>. The spec names the joins AND, OR and the empty one, and the source's comment
  names the group indicators \<open>'start'\<close> and \<open>'end'\<close>. What an empty join means for a
  predicate that has a left operand is left open by the spec; it is read as AND here, and no
  result below depends on it. \<open>InvalidOperation\<close> is the failure of
  \<open>evaluatePredicate\<close> on an unknown comparison symbol; the spec rejects such a predicate
  when it is authored, before any expression is evaluated.
\<close>

definition applyJoin :: "string \<Rightarrow> bool \<Rightarrow> bool \<Rightarrow> bool" where
  "applyJoin j a b = (if j = ''OR'' then a \<or> b else a \<and> b)"

text \<open>
  Modelled from the spec: folding one value into an accumulator; while the accumulator is
  empty there is no left operand and the join is ignored.
\<close>

fun combine :: "string \<Rightarrow> bool option \<Rightarrow> bool \<Rightarrow> bool" where
  "combine j None b = b"
| "combine j (Some a) b = applyJoin j a b"

text \<open>
  Modelled from the spec: the fold of \<open>evaluateExpression\<close>. \<open>acc\<close> is the
  accumulator of the innermost open group, \<open>stack\<close> the suspended parents, each with
  the join its open group will be combined with.
\<close>

fun evalLoop ::
  "(FilterPredicate \<Rightarrow> 'row \<Rightarrow> bool) \<Rightarrow> 'row \<Rightarrow> FilterPredicate list
   \<Rightarrow> bool option \<Rightarrow> (bool option \<times> string) list \<Rightarrow> error + bool" where
  "evalLoop holds row [] acc stack =
     (if stack = [] then Inr (case acc of None \<Rightarrow> True | Some b \<Rightarrow> b)
      else Inl UnbalancedGroup)"
| "evalLoop holds row (p # ps) acc stack =
     (if groupIndicator p = Some ''start'' then
        evalLoop holds row ps (Some (holds p row)) ((acc, join p) # stack)
      else if groupIndicator p = Some ''end'' then
        (case stack of
           [] \<Rightarrow> Inl UnbalancedGroup
         | (outer, j) # rest \<Rightarrow>
             evalLoop holds row ps
               (Some (combine j outer (combine (join p) acc (holds p row)))) rest)
      else evalLoop holds row ps (Some (combine (join p) acc (holds p row))) stack)"

text \<open>
  Modelled from the spec: \<open>evaluateExpression\<close>, the fold started on an empty
  accumulator with no group open.
\<close>

definition evaluateExpression ::
  "(FilterPredicate \<Rightarrow> 'row \<Rightarrow> bool) \<Rightarrow> FilterPredicate list \<Rightarrow> 'row \<Rightarrow> error + bool" where
  "evaluateExpression holds predicates row = evalLoop holds row predicates None []"

text \<open>
  Modelled from the spec: consistent group markers, in the words of the spec's data model
  (every \<open>start\<close> has a matching later \<open>end\<close>, no \<open>end\<close> without an open
  \<open>start\<close>): a scan that counts the groups currently open, and ends with none.
\<close>

fun openGroups :: "FilterPredicate list \<Rightarrow> nat \<Rightarrow> nat option" where
  "openGroups [] d = Some d"
| "openGroups (p # ps) d =
     (if groupIndicator p = Some ''start'' then openGroups ps (Suc d)
      else if groupIndicator p = Some ''end'' then
        (case d of 0 \<Rightarrow> None | Suc d' \<Rightarrow> openGroups ps d')
      else openGroups ps d)"

text \<open>Modelled from the spec: the markers of a predicate list are consistent.\<close>

definition balanced :: "FilterPredicate list \<Rightarrow> bool" where
  "balanced ps = (openGroups ps 0 = Some 0)"

text \<open>For concrete expressions: the predicate \<open>n == v\<close> on a metadata column.\<close>

definition predicateOn ::
  "string \<Rightarrow> string \<Rightarrow> string \<Rightarrow> string option \<Rightarrow> FilterPredicate" where
  "predicateOn n v j g =
     \<lparr>column = \<lparr>columnType = METADATA, name = n, model = '''', transform = ''''\<rparr>,
      operation = ''=='', value = v, join = j, groupIndicator = g\<rparr>"

text \<open>
  Modelled from the spec: the \<open>==\<close> case of \<open>evaluatePredicate\<close> on cells that are
  strings, a row being addressed through the hash of the column. For concrete rows only.
\<close>

definition equalsCell :: "FilterPredicate \<Rightarrow> (string \<rightharpoonup> string) \<Rightarrow> bool" where
  "equalsCell p row = (row (columnHash memberName (column p)) = Some (value p))"

section \<open>Result addressing\<close>

text \<open>
  Modelled from the spec: \<open>toKey\<close> is not among the sources (only the declaration of
  \<open>ResultKey\<close> is). The spec describes it as a delimiter-joined form of the four fields,
  with a delimiter that is guaranteed absent from each field. The delimiter is the
  parameter \<open>d\<close>.
\<close>

definition toKey :: "char \<Rightarrow> ResultKey \<Rightarrow> string" where
  "toKey d k = key_slice k @ d # key_metric k @ d # key_transform k @ d # key_model k"



section \<open>The beeswarm chart template (vegaSpec-beeswarm.ts)\<close>

text \<open>
  The value \<open>generateSpec\<close> builds is an object literal of strings, numbers, booleans,
  arrays and objects; an object keeps its properties in the order they were written.
  A number literal stands for the decimal it is written as; nothing computes with it.
\<close>

datatype json =
    JString string
  | JNumber rat
  | JBool bool
  | JArray "json list"
  | JObject "(string \<times> json) list"

text \<open>One step of a property access: \<open>.k\<close> or \<open>[i]\<close>.\<close>

datatype step = Key string | Index nat

text \<open>\<open>obj[k] = v\<close>: a property that exists keeps its place, a new one goes last.\<close>

fun setProp :: "string \<Rightarrow> json \<Rightarrow> (string \<times> json) list \<Rightarrow> (string \<times> json) list" where
  "setProp k v [] = [(k, v)]"
| "setProp k v ((k', v') # kvs) =
     (if k' = k then (k, v) # kvs else (k', v') # setProp k v kvs)"

text \<open>Reading along a path; \<open>None\<close> where the source would find \<open>undefined\<close>.\<close>

fun getPath :: "step list \<Rightarrow> json \<Rightarrow> json option" where
  "getPath [] j = Some j"
| "getPath (Key k # p) (JObject kvs) =
     (case map_of kvs k of Some c \<Rightarrow> getPath p c | None \<Rightarrow> None)"
| "getPath (Index i # p) (JArray xs) =
     (if i < length xs then getPath p (xs ! i) else None)"
| "getPath (s # p) j = None"

text \<open>
  The assignment \<open>target.path = v\<close>: the path is read up to its last step, which is
  written. \<open>None\<close> stands for the TypeError of an access through a missing value.
\<close>

fun assignPath :: "step list \<Rightarrow> json \<Rightarrow> json \<Rightarrow> json option" where
  "assignPath [] v j = None"
| "assignPath [Key k] v (JObject kvs) = Some (JObject (setProp k v kvs))"
| "assignPath (Key k # p) v (JObject kvs) =
     (case map_of kvs k of
        Some c \<Rightarrow> map_option (\<lambda>c'. JObject (setProp k c' kvs)) (assignPath p v c)
      | None \<Rightarrow> None)"
| "assignPath (Index i # p) v (JArray xs) =
     (if i < length xs then map_option (\<lambda>c'. JArray (xs[i := c'])) (assignPath p v (xs ! i))
      else None)"
| "assignPath (s # p) v j = None"

text \<open>The object literal bound to \<open>spec\<close>, with the empty axis title.\<close>

definition specLiteral :: json where
  "specLiteral = JObject [
     (''$schema'', JString ''https://vega.github.io/schema/vega/v5.json''),
     (''description'', JString
        ''A beeswarm chart example that uses a force-directed layout to group items by category.''),
     (''width'', JNumber 600),
     (''height'', JNumber 100),
     (''padding'', JObject [(''left'', JNumber 5), (''right'', JNumber 5),
        (''top'', JNumber 0), (''bottom'', JNumber 20)]),
     (''autosize'', JString ''pad''),
     (''signals'', JArray [
        JObject [(''name'', JString ''cx''), (''update'', JString ''width / 2'')],
        JObject [(''name'', JString ''cy''), (''update'', JString ''height / 2'')],
        JObject [(''name'', JString ''radius''), (''value'', JNumber 10)],
        JObject [(''name'', JString ''collide''), (''value'', JNumber 1)],
        JObject [(''name'', JString ''gravityX''), (''value'', JNumber (2 / 10))],
        JObject [(''name'', JString ''gravityY''), (''value'', JNumber (1 / 10))],
        JObject [(''name'', JString ''static''), (''value'', JBool True)]]),
     (''data'', JArray [JObject [(''name'', JString ''table'')]]),
     (''scales'', JArray [
        JObject [(''name'', JString ''xscale''),
          (''domain'', JObject [(''data'', JString ''table''), (''field'', JString ''metric'')]),
          (''range'', JString ''width''),
          (''nice'', JBool True),
          (''zero'', JBool False)],
        JObject [(''name'', JString ''sizescale''),
          (''domain'', JObject [(''data'', JString ''table''), (''field'', JString ''size'')]),
          (''range'', JArray [JNumber 80, JNumber 800])]]),
     (''axes'', JArray [
        JObject [(''title'', JString ''''),
          (''orient'', JString ''bottom''),
          (''scale'', JString ''xscale'')]]),
     (''marks'', JArray [
        JObject [(''name'', JString ''nodes''),
          (''type'', JString ''symbol''),
          (''from'', JObject [(''data'', JString ''table'')]),
          (''encode'', JObject [
             (''enter'', JObject [
                (''fill'', JObject [(''value'', JString ''purple'')]),
                (''xfocus'', JObject [(''scale'', JString ''xscale''),
                   (''field'', JString ''metric''), (''band'', JNumber (5 / 10))]),
                (''yfocus'', JObject [(''signal'', JString ''cy'')])]),
             (''update'', JObject [
                (''size'', JObject [(''scale'', JString ''sizescale''), (''field'', JString ''size'')]),
                (''stroke'', JObject [(''value'', JString ''white'')]),
                (''strokeWidth'', JObject [(''value'', JNumber 1)]),
                (''zindex'', JObject [(''value'', JNumber 0)])]),
             (''hover'', JObject [
                (''stroke'', JObject [(''value'', JString ''purple'')]),
                (''strokeWidth'', JObject [(''value'', JNumber 3)]),
                (''zindex'', JObject [(''value'', JNumber 1)]),
                (''tooltip'', JObject [(''signal'', JString
                   ''{'name': datum.sli_name, 'size': datum.size, 'metric': datum.metric}'')])])]),
          (''transform'', JArray [
             JObject [(''type'', JString ''force''),
               (''iterations'', JNumber 300),
               (''static'', JObject [(''signal'', JString ''static'')]),
               (''forces'', JArray [
                  JObject [(''force'', JString ''collide''),
                    (''iterations'', JObject [(''signal'', JString ''collide'')]),
                    (''radius'', JObject [(''signal'', JString ''radius'')])],
                  JObject [(''force'', JString ''x''), (''x'', JString ''xfocus''),
                    (''strength'', JObject [(''signal'', JString ''gravityX'')])],
                  JObject [(''force'', JString ''y''), (''y'', JString ''yfocus''),
                    (''strength'', JObject [(''signal'', JString ''gravityY'')])]])]])]])]"

text \<open>\<open>spec.axes[0].title = metric; return spec\<close>.\<close>

definition titlePath :: "step list" where
  "titlePath = [Key ''axes'', Index 0, Key ''title'']"

definition generateSpec :: "string \<Rightarrow> json option" where
  "generateSpec metric = assignPath titlePath (JString metric) specLiteral"

section \<open>Results: the metric range\<close>

lemma cellStep_null: "allNull (cellStep None s) = allNull s"
  by (simp add: cellStep_def)

lemma rowLoop_null:
  "\<forall>c \<in> set arr. c = None \<Longrightarrow> allNull (rowLoop arr s) = allNull s"
  unfolding rowLoop_def
  by (induction arr arbitrary: s) (simp_all add: cellStep_null)

lemma matrixLoop_null:
  "\<forall>arr \<in> set res. \<forall>c \<in> set arr. c = None \<Longrightarrow> allNull (matrixLoop res s) = allNull s"
  unfolding matrixLoop_def
  by (induction res arbitrary: s) (simp_all add: rowLoop_null)

text \<open>
  C5: when every cell of the matrix is \<open>null\<close>, \<open>getMetricRange\<close> returns the
  sentinel \<open>[Infinity, -Infinity]\<close>.
\<close>

theorem getMetricRange_all_null:
  assumes "\<forall>arr \<in> set res. \<forall>c \<in> set arr. c = None"
  shows "getMetricRange res = (PosInf, NegInf)"
  using matrixLoop_null [OF assms] by (simp add: getMetricRange_def Let_def)

theorem getMetricRange_all_null_witness:
  "getMetricRange [[None, None]] = (PosInf, NegInf)"
  using getMetricRange_all_null [of "[[None, None]]"] by simp

text \<open>
  C1: the claim is that \<open>null\<close> cells are ignored, so that
  \<open>getMetricRange([[1,null,3],[null,null,null]])\<close> is \<open>[1,3]\<close>. The callback guards
  only the flag with \<open>n !== null\<close>; the two assignments to \<open>range\<close> run for every
  cell, and \<open>Math.min\<close> reads \<open>null\<close> as zero. On the spec's own example the function
  returns \<open>[0,3]\<close>.
\<close>

theorem getMetricRange_null_as_zero:
  "getMetricRange [[Some (Fin 1), None, Some (Fin 3)], [None, None, None]] = (Fin 0, Fin 3)"
  by (simp add: getMetricRange_def matrixLoop_def rowLoop_def cellStep_def
        Math_min_def Math_max_def)

section \<open>Results: column identity\<close>

text \<open>
  The claim C2 fails in its "only if" half and in its first example. The three parts of
  the hash are concatenated with nothing between them, so two columns with different
  names and models collide; and a METADATA column named \<open>age\<close> hashes to \<open>age\<close>,
  while an OUTPUT column of that name hashes to the value of OUTPUT followed by \<open>age\<close>.
\<close>

theorem columnHash_collision:
  "columnHash memberName \<lparr>columnType = OUTPUT, name = ''x'', model = ''ab'', transform = ''''\<rparr>
     = columnHash memberName \<lparr>columnType = OUTPUT, name = ''xa'', model = ''b'', transform = ''''\<rparr>
   \<and> \<not> sameIdentity \<lparr>columnType = OUTPUT, name = ''x'', model = ''ab'', transform = ''''\<rparr>
         \<lparr>columnType = OUTPUT, name = ''xa'', model = ''b'', transform = ''''\<rparr>
   \<and> columnHash memberName \<lparr>columnType = METADATA, name = ''age'', model = '''', transform = ''''\<rparr>
     \<noteq> columnHash memberName \<lparr>columnType = OUTPUT, name = ''age'', model = '''', transform = ''''\<rparr>"
  by (simp add: columnHash_def sameIdentity_def)

text \<open>
  C2, amended: columns that are identical under the identity rule have the same hash
  (the converse does not hold); \<open>{OUTPUT,"x","modelA",""}\<close> and
  \<open>{OUTPUT,"x","modelB",""}\<close> hash differently; \<open>{METADATA,"age","",""}\<close> and
  \<open>{OUTPUT,"age","",""}\<close> hash identically only if the value of OUTPUT is the empty string.
  This holds whatever the runtime values of the column types are.
\<close>

theorem columnHash_identity:
  "(sameIdentity c1 c2 \<longrightarrow> columnHash str c1 = columnHash str c2)
   \<and> columnHash str \<lparr>columnType = OUTPUT, name = ''x'', model = ''modelA'', transform = ''''\<rparr>
     \<noteq> columnHash str \<lparr>columnType = OUTPUT, name = ''x'', model = ''modelB'', transform = ''''\<rparr>
   \<and> (columnHash str \<lparr>columnType = METADATA, name = ''age'', model = '''', transform = ''''\<rparr>
      = columnHash str \<lparr>columnType = OUTPUT, name = ''age'', model = '''', transform = ''''\<rparr>
      \<longleftrightarrow> str OUTPUT = '''')"
  by (auto simp add: columnHash_def sameIdentity_def normalizedType_def split: if_splits)

theorem columnHash_identity_witness:
  "columnHash memberName
       \<lparr>columnType = OUTPUT, name = ''x'', model = ''modelA'', transform = ''t1''\<rparr>
     = columnHash memberName
       \<lparr>columnType = OUTPUT, name = ''x'', model = ''modelA'', transform = ''t2''\<rparr>"
  using columnHash_identity
    [of "\<lparr>columnType = OUTPUT, name = ''x'', model = ''modelA'', transform = ''t1''\<rparr>"
        "\<lparr>columnType = OUTPUT, name = ''x'', model = ''modelA'', transform = ''t2''\<rparr>"
        memberName]
  by (simp add: sameIdentity_def normalizedType_def)

text \<open>
  The claim C3 fails: the model is appended to the hash of a METADATA column as it is to
  any other, so two METADATA columns of one name and different models hash differently.
\<close>

theorem columnHash_metadata_model:
  "columnHash memberName
       \<lparr>columnType = METADATA, name = ''age'', model = ''m1'', transform = ''''\<rparr>
     \<noteq> columnHash memberName
       \<lparr>columnType = METADATA, name = ''age'', model = ''m2'', transform = ''''\<rparr>"
  by (simp add: columnHash_def)

text \<open>
  C3, amended: for two columns whose columnType is METADATA and whose names are equal,
  \<open>columnHash\<close> returns the same string exactly when their models are equal, regardless
  of their transforms.
\<close>

theorem columnHash_metadata:
  assumes "columnType c1 = METADATA" and "columnType c2 = METADATA" and "name c1 = name c2"
  shows "columnHash str c1 = columnHash str c2 \<longleftrightarrow> model c1 = model c2"
  using assms by (simp add: columnHash_def)

theorem columnHash_metadata_witness:
  "columnHash memberName
       \<lparr>columnType = METADATA, name = ''age'', model = ''m'', transform = ''t1''\<rparr>
     = columnHash memberName
       \<lparr>columnType = METADATA, name = ''age'', model = ''m'', transform = ''t2''\<rparr>"
  using columnHash_metadata
    [of "\<lparr>columnType = METADATA, name = ''age'', model = ''m'', transform = ''t1''\<rparr>"
        "\<lparr>columnType = METADATA, name = ''age'', model = ''m'', transform = ''t2''\<rparr>"
        memberName]
  by simp

text \<open>
  C4: for every column, \<open>columnHash\<close> returns the concatenation
  \<open>(columnType == METADATA ? "" : columnType) + name + (model || "")\<close>, that is the
  column type unless it is METADATA, then the name, then the model.
\<close>

theorem columnHash_concat:
  "columnHash str col =
     (if columnType col = METADATA then '''' else str (columnType col))
     @ name col @ js_or (model col) ''''
   \<and> columnHash str col =
     (if columnType col = METADATA then '''' else str (columnType col))
     @ name col @ model col"
  by (simp add: columnHash_def js_or_def)

section \<open>Results: both functions leave the store as it was\<close>

lemma cellStep_heap_sim:
  "cellStep_heap (length h) n (withRange h s) = withRange h (cellStep n s)"
  by (simp add: cellStep_heap_def withRange_def cellStep_def load_def store_def
        lookup_def Let_def)

lemma rowLoop_heap_sim:
  "fold (cellStep_heap (length h)) arr (withRange h s) = withRange h (rowLoop arr s)"
  unfolding rowLoop_def
  by (induction arr arbitrary: s) (simp_all add: cellStep_heap_sim)

lemma matrixLoop_heap_sim:
  "fold (\<lambda>arr. fold (cellStep_heap (length h)) arr) m (withRange h s)
     = withRange h (matrixLoop m s)"
  unfolding matrixLoop_def
  by (induction m arbitrary: s) (simp_all add: rowLoop_heap_sim)

lemma getMetricRange_heap_result:
  assumes "lookup h res = Some (Matrix m)"
  shows "\<exists>h' a. getMetricRange_heap h res = Some (h', a) \<and> take (length h) h' = h
           \<and> lookup h' a = Some (Range (fst (getMetricRange m)) (snd (getMetricRange m)))
           \<and> lookup h a = None"
proof -
  let ?s0 = "\<lparr>range0 = PosInf, range1 = NegInf, allNull = True\<rparr>"
  have init: "(h @ [Range PosInf NegInf], True) = withRange h ?s0"
    by (simp add: withRange_def)
  show ?thesis
    using assms
    unfolding getMetricRange_heap_def Let_def init matrixLoop_heap_sim
    by (simp add: withRange_def getMetricRange_def lookup_def Let_def nth_append)
qed

text \<open>
  C9: \<open>getMetricRange\<close> and \<open>columnHash\<close> are pure. Called on the address of a matrix,
  \<open>getMetricRange\<close> leaves every object of the store as it was (the matrix among them),
  returns an array that did not exist before, whose content is a function of the matrix
  alone, and a second call returns an array of the same content. \<open>columnHash\<close> returns
  the store it was given, and a string that is a function of the column alone.
\<close>

theorem util_functions_pure:
  assumes "lookup h res = Some (Matrix m)" and "lookup h col = Some (Column c)"
  shows "\<exists>h' a v. getMetricRange_heap h res = Some (h', a)
           \<and> take (length h) h' = h \<and> lookup h' res = Some (Matrix m)
           \<and> lookup h a = None \<and> lookup h' a = Some v
           \<and> v = Range (fst (getMetricRange m)) (snd (getMetricRange m))
           \<and> (\<exists>h'' a'. getMetricRange_heap h' res = Some (h'', a') \<and> lookup h'' a' = Some v)
           \<and> columnHash_heap str h col = Some (h, columnHash str c)"
proof -
  from getMetricRange_heap_result [OF assms(1)] obtain h' a where
    r: "getMetricRange_heap h res = Some (h', a)" and t: "take (length h) h' = h"
    and v: "lookup h' a = Some (Range (fst (getMetricRange m)) (snd (getMetricRange m)))"
    and f: "lookup h a = None" by blast
  from assms(1) have "res < length h" and "h ! res = Matrix m"
    by (simp_all add: lookup_def split: if_splits)
  with t have keep: "lookup h' res = Some (Matrix m)"
    by (metis length_take lookup_def min_less_iff_conj nth_take)
  from getMetricRange_heap_result [OF keep] obtain h'' a' where
    "getMetricRange_heap h' res = Some (h'', a')"
    "lookup h'' a' = Some (Range (fst (getMetricRange m)) (snd (getMetricRange m)))" by blast
  moreover from assms(2) have "columnHash_heap str h col = Some (h, columnHash str c)"
    by (simp add: columnHash_heap_def)
  ultimately show ?thesis using r t v f keep by blast
qed

theorem util_functions_pure_witness:
  "getMetricRange_heap [Matrix [[Some (Fin 1), Some (Fin 3)]],
        Column \<lparr>columnType = OUTPUT, name = ''x'', model = ''m'', transform = ''''\<rparr>] 0
     = Some ([Matrix [[Some (Fin 1), Some (Fin 3)]],
        Column \<lparr>columnType = OUTPUT, name = ''x'', model = ''m'', transform = ''''\<rparr>,
        Range (Fin 1) (Fin 3)], 2)
   \<and> columnHash_heap memberName [Matrix [[Some (Fin 1), Some (Fin 3)]],
        Column \<lparr>columnType = OUTPUT, name = ''x'', model = ''m'', transform = ''''\<rparr>] 1
     = Some ([Matrix [[Some (Fin 1), Some (Fin 3)]],
        Column \<lparr>columnType = OUTPUT, name = ''x'', model = ''m'', transform = ''''\<rparr>],
        ''OUTPUTxm'')"
  using util_functions_pure [of "[Matrix [[Some (Fin 1), Some (Fin 3)]],
        Column \<lparr>columnType = OUTPUT, name = ''x'', model = ''m'', transform = ''''\<rparr>]" 0
        "[[Some (Fin 1), Some (Fin 3)]]" 1
        "\<lparr>columnType = OUTPUT, name = ''x'', model = ''m'', transform = ''''\<rparr>" memberName]
  by (simp add: lookup_def getMetricRange_heap_def cellStep_heap_def load_def store_def
        Math_min_def Math_max_def columnHash_heap_def columnHash_def)

section \<open>Results: the filter predicate engine\<close>

lemma evalLoop_fails_iff:
  "evalLoop holds row ps acc stack = Inl UnbalancedGroup
   \<longleftrightarrow> openGroups ps (length stack) \<noteq> Some 0"
proof (induction ps arbitrary: acc stack)
  case Nil
  then show ?case by simp
next
  case (Cons p ps)
  show ?case
  proof (cases stack)
    case Nil
    then show ?thesis using Cons.IH [of _ "[]"] Cons.IH [of _ "[(acc, join p)]"] by simp
  next
    case (Cons fr rest)
    obtain outer j where fr: "fr = (outer, j)" by (cases fr)
    show ?thesis
      using Cons.IH [of _ rest] Cons.IH [of _ stack] Cons.IH [of _ "(acc, join p) # stack"]
      by (simp add: Cons fr)
  qed
qed

lemma evalLoop_error: "evalLoop holds row ps acc stack = Inl e \<Longrightarrow> e = UnbalancedGroup"
  by (induction holds row ps acc stack rule: evalLoop.induct)
     (auto split: if_splits list.splits)

text \<open>
  C6: for every row, the predicates \<open>[A(join=""), B(join=OR, start), C(join=AND),
  D(join=AND, end)]\<close> evaluate to \<open>A OR (B AND C AND D)\<close> (whatever the join of \<open>A\<close>
  is), and a sequence whose \<open>start\<close>/\<open>end\<close> markers are inconsistent fails with
  \<open>UnbalancedGroup\<close>, while a sequence whose markers are consistent returns a boolean.
\<close>

theorem evaluateExpression_groups:
  "(groupIndicator A = None \<and> groupIndicator B = Some ''start'' \<and> join B = ''OR''
    \<and> groupIndicator C = None \<and> join C = ''AND''
    \<and> groupIndicator D = Some ''end'' \<and> join D = ''AND''
    \<longrightarrow> evaluateExpression holds [A, B, C, D] row
        = Inr (holds A row \<or> (holds B row \<and> holds C row \<and> holds D row)))
   \<and> (\<not> balanced ps \<longrightarrow> evaluateExpression holds ps row = Inl UnbalancedGroup)
   \<and> (balanced ps \<longrightarrow> (\<exists>b. evaluateExpression holds ps row = Inr b))"
proof (intro conjI impI)
  assume "groupIndicator A = None \<and> groupIndicator B = Some ''start'' \<and> join B = ''OR''
    \<and> groupIndicator C = None \<and> join C = ''AND''
    \<and> groupIndicator D = Some ''end'' \<and> join D = ''AND''"
  then show "evaluateExpression holds [A, B, C, D] row
        = Inr (holds A row \<or> (holds B row \<and> holds C row \<and> holds D row))"
    by (simp add: evaluateExpression_def applyJoin_def)
next
  assume "\<not> balanced ps"
  then show "evaluateExpression holds ps row = Inl UnbalancedGroup"
    using evalLoop_fails_iff [of holds row ps None "[]"]
    by (simp add: evaluateExpression_def balanced_def)
next
  assume b: "balanced ps"
  show "\<exists>b. evaluateExpression holds ps row = Inr b"
  proof (cases "evaluateExpression holds ps row")
    case (Inl e)
    then have "e = UnbalancedGroup"
      using evalLoop_error [of holds row ps None "[]" e] by (simp add: evaluateExpression_def)
    with Inl b show ?thesis
      using evalLoop_fails_iff [of holds row ps None "[]"]
      by (simp add: evaluateExpression_def balanced_def)
  next
    case (Inr v)
    then show ?thesis by blast
  qed
qed

theorem evaluateExpression_groups_witness:
  "evaluateExpression equalsCell
     [predicateOn ''a'' ''1'' '''' None,
      predicateOn ''b'' ''2'' ''OR'' (Some ''start''),
      predicateOn ''c'' ''0'' ''AND'' None,
      predicateOn ''a'' ''1'' ''AND'' (Some ''end'')]
     [''a'' \<mapsto> ''1'', ''b'' \<mapsto> ''2'', ''c'' \<mapsto> ''3''] = Inr True
   \<and> evaluateExpression equalsCell
     [predicateOn ''a'' ''1'' '''' None,
      predicateOn ''b'' ''2'' ''OR'' (Some ''start''),
      predicateOn ''c'' ''0'' ''AND'' None]
     [''a'' \<mapsto> ''1'', ''b'' \<mapsto> ''2'', ''c'' \<mapsto> ''3''] = Inl UnbalancedGroup"
  using evaluateExpression_groups
    [where A = "predicateOn ''a'' ''1'' '''' None"
       and B = "predicateOn ''b'' ''2'' ''OR'' (Some ''start'')"
       and C = "predicateOn ''c'' ''0'' ''AND'' None"
       and D = "predicateOn ''a'' ''1'' ''AND'' (Some ''end'')"
       and holds = equalsCell
       and row = "[''a'' \<mapsto> ''1'', ''b'' \<mapsto> ''2'', ''c'' \<mapsto> ''3'']"
       and ps = "[predicateOn ''a'' ''1'' '''' None,
                  predicateOn ''b'' ''2'' ''OR'' (Some ''start''),
                  predicateOn ''c'' ''0'' ''AND'' None]"]
  by (simp add: predicateOn_def equalsCell_def columnHash_def balanced_def)

text \<open>
  C7: on the empty predicate list \<open>evaluateExpression\<close> returns true, for every row.
\<close>

theorem evaluateExpression_empty: "evaluateExpression holds [] row = Inr True"
  by (simp add: evaluateExpression_def)

section \<open>Results: result addressing\<close>




lemma toKey_collision_any_delimiter:
  "toKey d \<lparr>key_slice = [d], key_metric = [], key_transform = t, key_model = m\<rparr>
     = toKey d \<lparr>key_slice = [], key_metric = [d], key_transform = t, key_model = m\<rparr>"
  by (simp add: toKey_def)




section \<open>Results: the beeswarm chart template\<close>

text \<open>
  C10: for every metric string \<open>m\<close>, \<open>generateSpec m\<close> returns a spec whose only axis is
  the bottom axis and has the title \<open>m\<close>; and the specs of two metrics differ in that
  title only: writing the title \<open>m\<close> into the spec of any other metric gives the spec
  of \<open>m\<close>.
\<close>

theorem generateSpec_title:
  "(\<exists>spec. generateSpec m = Some spec
      \<and> getPath [Key ''axes'', Index 0, Key ''title''] spec = Some (JString m)
      \<and> getPath [Key ''axes'', Index 0, Key ''orient''] spec = Some (JString ''bottom'')
      \<and> getPath [Key ''axes''] spec = Some (JArray [JObject [(''title'', JString m),
          (''orient'', JString ''bottom''), (''scale'', JString ''xscale'')]]))
   \<and> Option.bind (generateSpec m') (assignPath [Key ''axes'', Index 0, Key ''title''] (JString m))
       = generateSpec m"
  by (simp add: generateSpec_def titlePath_def specLiteral_def)

end
